theory Spec2Isabelle
  imports Main
begin

section \<open>Data model\<close>

text \<open>
  Strings are Python \<open>str\<close> values, modelled as \<open>string\<close>: the sequence of the bytes of
  the text in UTF-8. Equality, emptiness, membership of an ASCII character and splitting at
  an ASCII character are the same on the bytes as on the code points. A timestamp is the ISO text
  that \<open>datetime.utcnow().isoformat()\<close> produces. The auxiliary maps (\<open>additional_kwargs\<close>
  of a message, \<open>context\<close> of a conversation row) are JSON objects: association lists from
  keys to opaque JSON values, in insertion order.
\<close>

type_synonym timestamp = string

type_synonym json_object = "(string \<times> string) list"

text \<open>
  An in-memory LangChain message. \<open>msg_class\<close> is \<open>msg.__class__.__name__\<close>;
  \<open>tool_calls\<close> is empty both for a message class without that attribute and for an
  empty list (the agent only tests \<open>not hasattr(msg, 'tool_calls') or not msg.tool_calls\<close>).
\<close>

record message =
  msg_class :: string
  content :: string
  additional_kwargs :: json_object
  tool_calls :: "string list"

definition HumanMessage :: "string \<Rightarrow> message" where
  "HumanMessage c =
     \<lparr>msg_class = ''HumanMessage'', content = c, additional_kwargs = [], tool_calls = []\<rparr>"

definition AIMessage :: "string \<Rightarrow> message" where
  "AIMessage c =
     \<lparr>msg_class = ''AIMessage'', content = c, additional_kwargs = [], tool_calls = []\<rparr>"

definition SystemMessage :: "string \<Rightarrow> message" where
  "SystemMessage c =
     \<lparr>msg_class = ''SystemMessage'', content = c, additional_kwargs = [], tool_calls = []\<rparr>"

text \<open>
  A stored message record is a dict read back from the JSON array of the row; each key may
  be missing, so each field is optional.
\<close>

record msg_dict =
  md_type :: "string option"
  md_content :: "string option"
  md_timestamp :: "timestamp option"
  md_additional_kwargs :: "json_object option"

text \<open>
  A row of table \<open>conversations\<close>; the primary key \<open>(user_id, thread_id)\<close> is the key of
  the store. \<open>message_history\<close> and \<open>context\<close> are JSON text columns written with
  \<open>json.dumps\<close> and read with \<open>json.loads\<close>; on the JSON-shaped values of this model
  that pair is the identity, so the row holds the values themselves.
\<close>

record conversation =
  conv_sender_email :: string
  conv_message_history :: "msg_dict list"
  conv_pending_action :: "string option"
  conv_context :: json_object
  conv_created_at :: timestamp
  conv_updated_at :: timestamp

type_synonym conversation_store = "(string \<times> string) \<rightharpoonup> conversation"

datatype error =
  IntegrityError
  | IndexError
  | ExternalError string

section \<open>Conversation store (database.py)\<close>

text \<open>
  \<open>user_id\<close> and \<open>thread_id\<close> are primary-key columns and therefore not nullable. The
  agent passes \<open>payload.get("thread_id")\<close>, which is \<open>None\<close> when the field is missing:
  a lookup by a NULL key matches no row, and a write of a NULL key is rejected by the
  database, \<open>get_session\<close> rolls the transaction back and re-raises.
\<close>

definition get_conversation ::
  "string \<Rightarrow> string option \<Rightarrow> conversation_store \<Rightarrow> conversation option" where
  "get_conversation user_id thread_id db =
     (case thread_id of None \<Rightarrow> None | Some t \<Rightarrow> db (user_id, t))"

definition save_conversation ::
  "timestamp \<Rightarrow> string \<Rightarrow> string option \<Rightarrow> string \<Rightarrow> msg_dict list \<Rightarrow> string option \<Rightarrow>
   json_object option \<Rightarrow> conversation_store \<Rightarrow> error + conversation_store" where
  "save_conversation now user_id thread_id sender_email message_history pending_action ctx db =
     (let ctx' = (case ctx of None \<Rightarrow> [] | Some c \<Rightarrow> c) in
      case thread_id of
        None \<Rightarrow> Inl IntegrityError
      | Some t \<Rightarrow>
          (case db (user_id, t) of
             Some conv \<Rightarrow>
               Inr (db((user_id, t) \<mapsto>
                 conv\<lparr>conv_sender_email := sender_email,
                      conv_message_history := message_history,
                      conv_pending_action := pending_action,
                      conv_context := ctx',
                      conv_updated_at := now\<rparr>))
           | None \<Rightarrow>
               Inr (db((user_id, t) \<mapsto>
                 \<lparr>conv_sender_email = sender_email,
                  conv_message_history = message_history,
                  conv_pending_action = pending_action,
                  conv_context = ctx',
                  conv_created_at = now,
                  conv_updated_at = now\<rparr>))))"

section \<open>Context manager (context_manager.py)\<close>

record context_manager =
  recent_window_size :: int
  summarize_after_hours :: int
  drop_after_days :: int

text \<open>\<open>get_context_manager()\<close> builds the global instance with the default arguments.\<close>

definition get_context_manager :: context_manager where
  "get_context_manager =
     \<lparr>recent_window_size = 10, summarize_after_hours = 48, drop_after_days = 7\<rparr>"

text \<open>
  Python's slice \<open>xs[i:]\<close>: a negative start counts from the end and is clamped at the
  front, a start past the end gives the empty list. Note that \<open>xs[-0:]\<close> is \<open>xs[0:]\<close>.
\<close>

definition py_slice_from :: "int \<Rightarrow> 'a list \<Rightarrow> 'a list" where
  "py_slice_from i xs =
     (let n = int (length xs);
          start = (if i < 0 then max (n + i) 0 else min i n)
      in drop (nat start) xs)"

text \<open>
  \<open>_serialize_messages\<close>: one dict per message. Every \<open>BaseMessage\<close> has the attribute
  \<open>additional_kwargs\<close>, so the key is always written. The clock readings of one call are
  modelled by the single value \<open>now\<close>.
\<close>

definition serialize_message :: "timestamp \<Rightarrow> message \<Rightarrow> msg_dict" where
  "serialize_message now msg =
     \<lparr>md_type = Some (msg_class msg),
      md_content = Some (content msg),
      md_timestamp = Some now,
      md_additional_kwargs = Some (additional_kwargs msg)\<rparr>"

definition serialize_messages :: "timestamp \<Rightarrow> message list \<Rightarrow> msg_dict list" where
  "serialize_messages now messages = map (serialize_message now) messages"

text \<open>
  \<open>_deserialize_messages\<close>: only \<open>type\<close> and \<open>content\<close> are read, with the defaults of
  \<open>dict.get\<close>; the message is rebuilt by the constructor of its class from the content alone.
\<close>

definition deserialize_message :: "msg_dict \<Rightarrow> message" where
  "deserialize_message d =
     (let msg_type = (case md_type d of None \<Rightarrow> ''HumanMessage'' | Some t \<Rightarrow> t);
          c = (case md_content d of None \<Rightarrow> [] | Some s \<Rightarrow> s)
      in if msg_type = ''HumanMessage'' then HumanMessage c
         else if msg_type = ''AIMessage'' then AIMessage c
         else if msg_type = ''SystemMessage'' then SystemMessage c
         else HumanMessage c)"

definition deserialize_messages :: "msg_dict list \<Rightarrow> message list" where
  "deserialize_messages message_dicts = map deserialize_message message_dicts"

definition load_conversation_context ::
  "context_manager \<Rightarrow> string \<Rightarrow> string option \<Rightarrow> conversation_store \<Rightarrow> message list" where
  "load_conversation_context cm user_id thread_id db =
     (case get_conversation user_id thread_id db of
        None \<Rightarrow> []
      | Some conv \<Rightarrow>
          (let all_messages = conv_message_history conv in
           if int (length all_messages) \<le> recent_window_size cm
           then deserialize_messages all_messages
           else deserialize_messages (py_slice_from (- recent_window_size cm) all_messages)))"

definition save_conversation_context ::
  "timestamp \<Rightarrow> string \<Rightarrow> string option \<Rightarrow> string \<Rightarrow> message list \<Rightarrow> string option \<Rightarrow>
   conversation_store \<Rightarrow> error + conversation_store" where
  "save_conversation_context now user_id thread_id sender_email messages pending_action db =
     save_conversation now user_id thread_id sender_email
       (serialize_messages now messages) pending_action None db"

definition get_pending_action ::
  "string \<Rightarrow> string option \<Rightarrow> conversation_store \<Rightarrow> string option" where
  "get_pending_action user_id thread_id db =
     (case get_conversation user_id thread_id db of
        None \<Rightarrow> None
      | Some conv \<Rightarrow> conv_pending_action conv)"

definition clear_pending_action ::
  "timestamp \<Rightarrow> string \<Rightarrow> string option \<Rightarrow> conversation_store \<Rightarrow> error + conversation_store" where
  "clear_pending_action now user_id thread_id db =
     (case get_conversation user_id thread_id db of
        None \<Rightarrow> Inr db
      | Some conv \<Rightarrow>
          save_conversation now user_id thread_id (conv_sender_email conv)
            (conv_message_history conv) None None db)"

section \<open>Email handler (email_handler.py)\<close>

text \<open>
  The trigger event is a nested dict; every level is read with \<open>dict.get\<close>. The branch
  \<open>metadata.connected_account.id\<close> is flattened into one optional field: a missing level
  gives \<open>None\<close> at the end, as the chain of \<open>get\<close> calls does. The fields of the payload
  are strings or missing, as the interface declares them.
\<close>

record payload =
  p_sender :: "string option"
  p_subject :: "string option"
  p_message_text :: "string option"
  p_thread_id :: "string option"
  p_message_id :: "string option"

record trigger_data =
  td_payload :: "payload option"
  td_connected_account_id :: "string option"

record email_data =
  sender_email :: string
  subject :: string
  body :: string
  thread_id :: "string option"
  message_id :: "string option"
  connected_account_id :: "string option"

text \<open>\<open>trigger_data.get("payload", {})\<close>: a missing payload is the empty dict.\<close>

definition empty_payload :: payload where
  "empty_payload =
     \<lparr>p_sender = None, p_subject = None, p_message_text = None, p_thread_id = None,
      p_message_id = None\<rparr>"

text \<open>\<open>str.split(sep)\<close> for a separator of one character.\<close>

fun split_on :: "char \<Rightarrow> string \<Rightarrow> string list" where
  "split_on c [] = [[]]"
| "split_on c (x # xs) =
     (if x = c then [] # split_on c xs
      else (let r = split_on c xs in (x # hd r) # tl r))"

text \<open>List indexing with a non-negative index: out of range raises \<open>IndexError\<close>.\<close>

definition py_index :: "'a list \<Rightarrow> nat \<Rightarrow> error + 'a" where
  "py_index xs i = (if i < length xs then Inr (xs ! i) else Inl IndexError)"

definition parse_sender :: "string \<Rightarrow> error + string" where
  "parse_sender sender_full =
     (if CHR ''<'' \<in> set sender_full \<and> CHR ''>'' \<in> set sender_full then
        (case py_index (split_on CHR ''<'' sender_full) 1 of
           Inl e \<Rightarrow> Inl e
         | Inr rest \<Rightarrow> py_index (split_on CHR ''>'' rest) 0)
      else Inr (if sender_full \<noteq> [] then sender_full else ''unknown@email.com''))"

definition parse_trigger_payload :: "trigger_data \<Rightarrow> error + email_data" where
  "parse_trigger_payload td =
     (let pl = (case td_payload td of None \<Rightarrow> empty_payload | Some p \<Rightarrow> p);
          sender_full = (case p_sender pl of None \<Rightarrow> [] | Some s \<Rightarrow> s)
      in case parse_sender sender_full of
           Inl e \<Rightarrow> Inl e
         | Inr addr \<Rightarrow>
             Inr \<lparr>sender_email = addr,
                  subject = (case p_subject pl of None \<Rightarrow> ''No Subject'' | Some s \<Rightarrow> s),
                  body = (case p_message_text pl of None \<Rightarrow> [] | Some s \<Rightarrow> s),
                  thread_id = p_thread_id pl,
                  message_id = p_message_id pl,
                  connected_account_id = td_connected_account_id td\<rparr>)"

section \<open>One turn (agent.py)\<close>

text \<open>
  \<open>str.lower()\<close> is a function of the Python runtime, not of this repository, and it
  follows the Unicode case mapping. The turn takes it as a parameter (\<open>str_lower\<close>
  below). \<open>ascii_lower\<close> is what it does on ASCII text, where only the letters \<open>A\<close> to
  \<open>Z\<close> move; it serves as the runtime's function in the concrete scenarios, whose
  strings are ASCII.
\<close>

definition ascii_lower_char :: "char \<Rightarrow> char" where
  "ascii_lower_char c =
     (let n = (of_char c :: nat) in if 65 \<le> n \<and> n \<le> 90 then char_of (n + 32) else c)"

definition ascii_lower :: "string \<Rightarrow> string" where
  "ascii_lower s = map ascii_lower_char s"

text \<open>
  The collaborators outside the repository are parameters of the turn: the runtime's
  \<open>str.lower\<close>, the environment variable \<open>GMAIL_USER_ID\<close>, the session manager
  (which returns the agent graph or raises),
  the graph's stream (the events it yields, or an exception), the reply API (which
  returns or raises) and the clock. An event is a dict whose values are dicts; a value
  either lacks the key \<open>messages\<close> or carries a list of messages.
\<close>

type_synonym event = "message list option list"

type_synonym graph = "message list \<Rightarrow> error + event list"

record reply_request =
  rr_connected_account_id :: "string option"
  rr_thread_id :: string
  rr_recipient_email :: string
  rr_message_body :: string

record externals =
  str_lower :: "string \<Rightarrow> string"
  getenv_GMAIL_USER_ID :: "string option"
  create_session_and_graph :: "string \<Rightarrow> error + graph"
  send_reply :: "reply_request \<Rightarrow> error + unit"
  utcnow :: timestamp

text \<open>
  What a turn can change: the conversation store, and the list of calls made to the
  reply API.
\<close>

record world =
  store :: conversation_store
  reply_calls :: "reply_request list"

datatype outcome =
  Skipped
  | Replied
  | ReplyFailed error
  | NoReply
  | Abandoned error

record turn_acc =
  result_messages :: "message list"
  current_messages :: "message list"
  agent_response :: string

text \<open>The body of the innermost loop over \<open>value["messages"]\<close>.\<close>

definition consume_message :: "message \<Rightarrow> turn_acc \<Rightarrow> turn_acc" where
  "consume_message msg acc =
     (let acc' = acc\<lparr>result_messages := result_messages acc @ [msg],
                     current_messages := current_messages acc @ [msg]\<rparr>
      in if content msg \<noteq> [] \<and> tool_calls msg = []
         then acc'\<lparr>agent_response := content msg\<rparr>
         else acc')"

definition consume_value :: "message list option \<Rightarrow> turn_acc \<Rightarrow> turn_acc" where
  "consume_value v acc =
     (case v of
        None \<Rightarrow> acc
      | Some msgs \<Rightarrow> if msgs \<noteq> [] then fold consume_message msgs acc else acc)"

definition consume_stream :: "event list \<Rightarrow> turn_acc \<Rightarrow> turn_acc" where
  "consume_stream events acc = fold (\<lambda>ev. fold consume_value ev) events acc"

definition new_message :: "email_data \<Rightarrow> message" where
  "new_message ed =
     HumanMessage (''Process this email and execute the instructions:'' @ [CHR 0x0A, CHR 0x0A] @
       ''Subject: '' @ subject ed @ [CHR 0x0A, CHR 0x0A] @
       ''From: '' @ sender_email ed @ [CHR 0x0A, CHR 0x0A] @ body ed)"

text \<open>
  Loading the history, creating the session and running the agent: none of them writes
  to the store. An exception of the session manager or of the stream leaves the
  \<open>try\<close> block of the turn.
\<close>

definition run_agent :: "externals \<Rightarrow> email_data \<Rightarrow> world \<Rightarrow> error + turn_acc" where
  "run_agent ext ed w =
     (let message_history =
            load_conversation_context get_context_manager (sender_email ed) (thread_id ed) (store w)
      in case create_session_and_graph ext (sender_email ed) of
           Inl e \<Rightarrow> Inl e
         | Inr g \<Rightarrow>
             (let current = message_history @ [new_message ed] in
              case g current of
                Inl e \<Rightarrow> Inl e
              | Inr events \<Rightarrow>
                  Inr (consume_stream events
                    \<lparr>result_messages = [], current_messages = current, agent_response = []\<rparr>)))"

definition persist :: "externals \<Rightarrow> email_data \<Rightarrow> turn_acc \<Rightarrow> world \<Rightarrow> error + world" where
  "persist ext ed acc w =
     (case save_conversation_context (utcnow ext) (sender_email ed) (thread_id ed)
             (sender_email ed) (current_messages acc) None (store w) of
        Inl e \<Rightarrow> Inl e
      | Inr db' \<Rightarrow> Inr (w\<lparr>store := db'\<rparr>))"

definition reply_request_of :: "email_data \<Rightarrow> string \<Rightarrow> turn_acc \<Rightarrow> reply_request" where
  "reply_request_of ed t acc =
     \<lparr>rr_connected_account_id = connected_account_id ed,
      rr_thread_id = t,
      rr_recipient_email = sender_email ed,
      rr_message_body = agent_response acc\<rparr>"

text \<open>
  \<open>if thread_id and agent_response\<close>: the thread id is present and not empty, and so is
  the reply text. The inner \<open>try\<close> catches what \<open>send_reply\<close> raises.
\<close>

definition dispatch_reply :: "externals \<Rightarrow> email_data \<Rightarrow> turn_acc \<Rightarrow> world \<Rightarrow> outcome \<times> world" where
  "dispatch_reply ext ed acc w =
     (case thread_id ed of
        None \<Rightarrow> (NoReply, w)
      | Some t \<Rightarrow>
          if t \<noteq> [] \<and> agent_response acc \<noteq> [] then
            (let req = reply_request_of ed t acc;
                 w' = w\<lparr>reply_calls := reply_calls w @ [req]\<rparr>
             in case send_reply ext req of
                  Inl reply_error \<Rightarrow> (ReplyFailed reply_error, w')
                | Inr _ \<Rightarrow> (Replied, w'))
          else (NoReply, w))"

definition run_turn :: "externals \<Rightarrow> email_data \<Rightarrow> world \<Rightarrow> (error + outcome) \<times> world" where
  "run_turn ext ed w =
     (case run_agent ext ed w of
        Inl e \<Rightarrow> (Inl e, w)
      | Inr acc \<Rightarrow>
          (case persist ext ed acc w of
             Inl e \<Rightarrow> (Inl e, w)
           | Inr w1 \<Rightarrow> (let (out, w2) = dispatch_reply ext ed acc w1 in (Inr out, w2))))"

text \<open>The loop-prevention test of the turn.\<close>

definition from_assistant_itself :: "externals \<Rightarrow> string \<Rightarrow> bool" where
  "from_assistant_itself ext user_id =
     (let inbox_owner_email =
            str_lower ext (case getenv_GMAIL_USER_ID ext of None \<Rightarrow> [] | Some v \<Rightarrow> v)
      in inbox_owner_email \<noteq> [] \<and> str_lower ext user_id = inbox_owner_email)"

text \<open>
  The \<open>try\<close> block of \<open>process_email_trigger\<close>. The three managers are taken as
  constructed and the database as reachable: an exception of a constructor or of the
  connection would reach the handler of the function like any other, and is not a branch
  of this model. Printing has no effect on the store or on the reply API.
\<close>

definition process_body :: "externals \<Rightarrow> trigger_data \<Rightarrow> world \<Rightarrow> (error + outcome) \<times> world" where
  "process_body ext td w =
     (case parse_trigger_payload td of
        Inl e \<Rightarrow> (Inl e, w)
      | Inr ed \<Rightarrow>
          if from_assistant_itself ext (sender_email ed) then (Inr Skipped, w)
          else run_turn ext ed w)"

text \<open>
  \<open>except Exception\<close> around the whole body: the exception is printed and the function
  returns. \<open>Inl\<close> in the result would be an exception that leaves the function.
\<close>

definition catch_all :: "(error + outcome) \<times> world \<Rightarrow> (error + outcome) \<times> world" where
  "catch_all r = (case r of (Inl e, w) \<Rightarrow> (Inr (Abandoned e), w) | (Inr out, w) \<Rightarrow> (Inr out, w))"

definition process_email_trigger ::
  "externals \<Rightarrow> trigger_data \<Rightarrow> world \<Rightarrow> (error + outcome) \<times> world" where
  "process_email_trigger ext td w = catch_all (process_body ext td w)"

section \<open>Concrete scenarios\<close>

text \<open>Values used to run the definitions on concrete inputs.\<close>

definition kwargs_message :: message where
  "kwargs_message =
     \<lparr>msg_class = ''AIMessage'', content = ''hi'', additional_kwargs = [(''k'', ''v'')],
      tool_calls = []\<rparr>"

definition tool_message :: message where
  "tool_message =
     \<lparr>msg_class = ''ToolMessage'', content = ''42'', additional_kwargs = [], tool_calls = []\<rparr>"

definition tool_call_message :: message where
  "tool_call_message =
     \<lparr>msg_class = ''AIMessage'', content = ''calling'', additional_kwargs = [],
      tool_calls = [''call_1'']\<rparr>"

definition tool_record :: msg_dict where
  "tool_record =
     \<lparr>md_type = Some ''ToolMessage'', md_content = Some ''42'',
      md_timestamp = Some ''2025-01-01T00:00:00'', md_additional_kwargs = Some []\<rparr>"

definition zero_window_manager :: context_manager where
  "zero_window_manager =
     \<lparr>recent_window_size = 0, summarize_after_hours = 48, drop_after_days = 7\<rparr>"

definition store_with :: "msg_dict list \<Rightarrow> conversation_store" where
  "store_with history =
     Map.empty((''alice@x.com'', ''t1'') \<mapsto>
       \<lparr>conv_sender_email = ''alice@x.com'',
        conv_message_history = history,
        conv_pending_action = Some ''awaiting_connection'',
        conv_context = [(''step'', ''2'')],
        conv_created_at = ''2025-01-01T00:00:00'',
        conv_updated_at = ''2025-01-01T00:00:00''\<rparr>)"

definition scenario_trigger :: trigger_data where
  "scenario_trigger =
     \<lparr>td_payload = Some \<lparr>p_sender = Some ''Alice <alice@x.com>'', p_subject = Some ''Hi'',
        p_message_text = Some ''Please summarize X'', p_thread_id = Some ''t1'',
        p_message_id = Some ''m1''\<rparr>,
      td_connected_account_id = Some ''ca1''\<rparr>"

definition scenario_email :: email_data where
  "scenario_email =
     \<lparr>sender_email = ''alice@x.com'', subject = ''Hi'', body = ''Please summarize X'',
      thread_id = Some ''t1'', message_id = Some ''m1'', connected_account_id = Some ''ca1''\<rparr>"

definition scenario_graph :: graph where
  "scenario_graph msgs = Inr [[Some [AIMessage ''Summary: ...'']]]"

text \<open>The reply API of this scenario raises on every call.\<close>

definition scenario_externals :: "string option \<Rightarrow> externals" where
  "scenario_externals mailbox =
     \<lparr>str_lower = ascii_lower,
      getenv_GMAIL_USER_ID = mailbox,
      create_session_and_graph = (\<lambda>user_id. Inr scenario_graph),
      send_reply = (\<lambda>req. Inl (ExternalError ''reply API down'')),
      utcnow = ''2025-01-02T00:00:00''\<rparr>"

definition empty_world :: world where
  "empty_world = \<lparr>store = Map.empty, reply_calls = []\<rparr>"

text \<open>The store after the first save of a message list for Alice's thread.\<close>

definition saved_store :: "message list \<Rightarrow> conversation_store" where
  "saved_store msgs =
     Map.empty((''alice@x.com'', ''t1'') \<mapsto>
       \<lparr>conv_sender_email = ''alice@x.com'',
        conv_message_history = serialize_messages ''2025-01-02T00:00:00'' msgs,
        conv_pending_action = None,
        conv_context = [],
        conv_created_at = ''2025-01-02T00:00:00'',
        conv_updated_at = ''2025-01-02T00:00:00''\<rparr>)"

definition sender_trigger :: "string \<Rightarrow> trigger_data" where
  "sender_trigger s =
     \<lparr>td_payload = Some \<lparr>p_sender = Some s, p_subject = None, p_message_text = None,
        p_thread_id = None, p_message_id = None\<rparr>,
      td_connected_account_id = None\<rparr>"

text \<open>What the loops of the turn have collected when \<open>scenario_graph\<close> has finished.\<close>

definition scenario_acc :: turn_acc where
  "scenario_acc =
     \<lparr>result_messages = [AIMessage ''Summary: ...''],
      current_messages = [new_message scenario_email, AIMessage ''Summary: ...''],
      agent_response = ''Summary: ...''\<rparr>"

section \<open>Serialization and the sliding window\<close>

lemma deserialize_message_class:
  "msg_class (deserialize_message d) \<in> {''HumanMessage'', ''AIMessage'', ''SystemMessage''}"
  by (simp add: deserialize_message_def HumanMessage_def AIMessage_def SystemMessage_def Let_def)

lemma deserialize_message_content:
  "content (deserialize_message d) = (case md_content d of None \<Rightarrow> [] | Some s \<Rightarrow> s)"
  by (simp add: deserialize_message_def HumanMessage_def AIMessage_def SystemMessage_def Let_def)

lemma deserialize_message_kwargs: "additional_kwargs (deserialize_message d) = []"
  by (simp add: deserialize_message_def HumanMessage_def AIMessage_def SystemMessage_def Let_def)

lemma deserialize_serialize_content:
  "content (deserialize_message (serialize_message now m)) = content m"
  by (simp add: deserialize_message_content serialize_message_def)

lemma deserialize_serialize_class:
  "msg_class (deserialize_message (serialize_message now m)) =
     (if msg_class m \<in> {''HumanMessage'', ''AIMessage'', ''SystemMessage''}
      then msg_class m else ''HumanMessage'')"
  by (simp add: deserialize_message_def serialize_message_def HumanMessage_def AIMessage_def
      SystemMessage_def Let_def)

lemma save_conversation_row:
  "\<exists>db' conv. save_conversation now u (Some t) s mh pa ctx db = Inr db' \<and>
     db' (u, t) = Some conv \<and> conv_message_history conv = mh \<and> conv_sender_email conv = s \<and>
     conv_pending_action conv = pa \<and>
     conv_context conv = (case ctx of None \<Rightarrow> [] | Some c \<Rightarrow> c) \<and>
     (\<forall>k. k \<noteq> (u, t) \<longrightarrow> db' k = db k)"
  by (cases "db (u, t)") (simp_all add: save_conversation_def Let_def)

lemma py_slice_from_last:
  "0 < w \<Longrightarrow> w < int (length xs) \<Longrightarrow> py_slice_from (- w) xs = drop (length xs - nat w) xs"
  by (simp add: py_slice_from_def Let_def nat_diff_distrib' max_def)

lemma py_slice_from_zero: "py_slice_from 0 xs = xs"
  by (simp add: py_slice_from_def)

text \<open>
  For a window of at least one message the slice is the suffix of that many messages:
  the long-history branch of \<open>load_conversation_context\<close> returns the last
  \<open>recent_window_size\<close> records, deserialized in stored order.
\<close>

lemma load_conversation_context_window:
  assumes "get_conversation u t db = Some conv"
    and "0 < recent_window_size cm"
    and "recent_window_size cm < int (length (conv_message_history conv))"
  shows "load_conversation_context cm u t db =
           deserialize_messages
             (drop (length (conv_message_history conv) - nat (recent_window_size cm))
                (conv_message_history conv))"
    and "int (length (load_conversation_context cm u t db)) = recent_window_size cm"
  using assms
  by (simp_all add: load_conversation_context_def deserialize_messages_def Let_def
      py_slice_from_last)

section \<open>Parsing the sender\<close>

lemma split_on_nonempty: "split_on c s \<noteq> []"
  by (induction s) (simp_all add: Let_def)

lemma hd_split_on: "hd (split_on c s) = takeWhile (\<lambda>x. x \<noteq> c) s"
  by (induction s) (simp_all add: Let_def)

lemma split_on_prefix: "c \<notin> set p \<Longrightarrow> split_on c (p @ c # r) = p # split_on c r"
  by (induction p) (auto simp add: Let_def)

lemma split_on_two: "c \<in> set s \<Longrightarrow> 1 < length (split_on c s)"
proof (induction s)
  case Nil
  then show ?case by simp
next
  case (Cons x xs)
  show ?case
  proof (cases "x = c")
    case True
    then show ?thesis using split_on_nonempty [of c xs] by (cases "split_on c xs") simp_all
  next
    case False
    with Cons have "1 < length (split_on c xs)" by simp
    then show ?thesis using False by (simp add: Let_def)
  qed
qed

lemma parse_sender_returns: "\<exists>addr. parse_sender s = Inr addr"
proof (cases "CHR ''<'' \<in> set s \<and> CHR ''>'' \<in> set s")
  case True
  then have "1 < length (split_on CHR ''<'' s)" using split_on_two [of "CHR ''<''" s] by blast
  moreover have "0 < length (split_on CHR ''>'' r)" for r
    using split_on_nonempty [of "CHR ''>''" r] by simp
  ultimately show ?thesis using True by (simp add: parse_sender_def py_index_def)
next
  case False
  then show ?thesis by (auto simp add: parse_sender_def)
qed

lemma parse_trigger_payload_returns: "\<exists>ed. parse_trigger_payload td = Inr ed"
proof -
  obtain addr where "parse_sender (case p_sender (case td_payload td of None \<Rightarrow> empty_payload | Some p \<Rightarrow> p) of None \<Rightarrow> [] | Some s \<Rightarrow> s) = Inr addr"
    using parse_sender_returns by blast
  then show ?thesis by (simp add: parse_trigger_payload_def Let_def)
qed

lemma parse_sender_decorated:
  assumes "CHR ''<'' \<notin> set name" "CHR ''<'' \<notin> set addr" "CHR ''>'' \<notin> set addr"
  shows "parse_sender (name @ ''<'' @ addr @ ''>'' @ rest) = Inr addr"
proof -
  let ?s = "name @ ''<'' @ addr @ ''>'' @ rest"
  have sp: "split_on CHR ''<'' ?s = name # split_on CHR ''<'' (addr @ ''>'' @ rest)"
    using assms(1) split_on_prefix [of "CHR ''<''" name "addr @ ''>'' @ rest"] by simp
  have ne: "split_on CHR ''<'' (addr @ ''>'' @ rest) \<noteq> []" by (rule split_on_nonempty)
  have snd_piece: "split_on CHR ''<'' ?s ! 1 = takeWhile (\<lambda>x. x \<noteq> CHR ''<'') (addr @ ''>'' @ rest)"
    using sp ne hd_split_on [of "CHR ''<''" "addr @ ''>'' @ rest"] by (simp add: hd_conv_nth)
  have tw: "takeWhile (\<lambda>x. x \<noteq> CHR ''<'') (addr @ ''>'' @ rest) = addr @ CHR ''>'' # takeWhile (\<lambda>x. x \<noteq> CHR ''<'') rest"
    using assms(2) by (induction addr) auto
  have len: "1 < length (split_on CHR ''<'' ?s)" using sp ne by (cases "split_on CHR ''<'' (addr @ ''>'' @ rest)") simp_all
  have fst_piece: "split_on CHR ''>'' (addr @ CHR ''>'' # r) ! 0 = addr" for r
    using assms(3) split_on_prefix [of "CHR ''>''" addr r] by simp
  have len2: "0 < length (split_on CHR ''>'' r)" for r
    using split_on_nonempty [of "CHR ''>''" r] by simp
  have "py_index (split_on CHR ''<'' ?s) 1 = Inr (addr @ CHR ''>'' # takeWhile (\<lambda>x. x \<noteq> CHR ''<'') rest)"
    using len snd_piece tw by (simp add: py_index_def)
  then show ?thesis using fst_piece len2 by (simp add: parse_sender_def py_index_def)
qed

lemma parse_sender_bare:
  "\<not> (CHR ''<'' \<in> set s \<and> CHR ''>'' \<in> set s) \<Longrightarrow>
   parse_sender s = Inr (if s \<noteq> [] then s else ''unknown@email.com'')"
  by (auto simp add: parse_sender_def)

lemma scenario_parse: "parse_trigger_payload scenario_trigger = Inr scenario_email"
  by (simp add: parse_trigger_payload_def scenario_trigger_def scenario_email_def
      parse_sender_def py_index_def Let_def)

section \<open>The turn\<close>

lemma dispatch_reply_not_skipped: "dispatch_reply ext ed acc w \<noteq> (Skipped, w')"
  by (simp add: dispatch_reply_def Let_def split: option.splits sum.splits)

lemma run_turn_not_skipped: "fst (run_turn ext ed w) \<noteq> Inr Skipped"
  by (auto simp add: run_turn_def dispatch_reply_not_skipped split: sum.splits prod.splits)

lemma catch_all_not_skipped: "fst r \<noteq> Inr Skipped \<Longrightarrow> fst (catch_all r) \<noteq> Inr Skipped"
  by (auto simp add: catch_all_def split: prod.splits sum.splits)

lemma catch_all_returns: "\<exists>out. fst (catch_all r) = Inr out"
  by (auto simp add: catch_all_def split: prod.splits sum.splits)

text \<open>The loops of the turn append every message of every event, in order.\<close>

lemma fold_consume_message_current:
  "current_messages (fold consume_message msgs acc) = current_messages acc @ msgs"
  by (induction msgs arbitrary: acc) (simp_all add: consume_message_def Let_def)

lemma consume_value_current:
  "current_messages (consume_value v acc) =
     current_messages acc @ (case v of None \<Rightarrow> [] | Some msgs \<Rightarrow> msgs)"
  by (cases v) (simp_all add: consume_value_def fold_consume_message_current)

lemma fold_consume_value_current:
  "current_messages (fold consume_value ev acc) =
     current_messages acc @ concat (map (\<lambda>v. case v of None \<Rightarrow> [] | Some msgs \<Rightarrow> msgs) ev)"
  by (induction ev arbitrary: acc) (simp_all add: consume_value_current)

lemma consume_stream_current:
  "current_messages (consume_stream events acc) =
     current_messages acc @
       concat (map (\<lambda>ev. concat (map (\<lambda>v. case v of None \<Rightarrow> [] | Some msgs \<Rightarrow> msgs) ev)) events)"
  unfolding consume_stream_def
  by (induction events arbitrary: acc) (simp_all add: fold_consume_value_current)

lemma ascii_lower_empty_iff: "ascii_lower s = [] \<longleftrightarrow> s = []"
  by (simp add: ascii_lower_def)

lemma ascii_lower_scenario: "ascii_lower ''alice@x.com'' = ascii_lower ''Alice@X.COM''"
  by code_simp

lemma scenario_run_agent:
  "run_agent (scenario_externals mailbox) scenario_email empty_world = Inr scenario_acc"
  by (simp add: run_agent_def scenario_externals_def scenario_email_def empty_world_def
      load_conversation_context_def get_conversation_def scenario_graph_def consume_stream_def
      consume_value_def consume_message_def scenario_acc_def AIMessage_def Let_def)

lemma scenario_persist:
  "\<exists>w1. persist (scenario_externals mailbox) scenario_email scenario_acc empty_world = Inr w1"
  by (simp add: persist_def save_conversation_context_def save_conversation_def
      scenario_email_def empty_world_def Let_def)

section \<open>The claims\<close>

text \<open>
  C1. Claim: a message saved with an auxiliary map \<open>additional_kwargs\<close> comes back from
  \<open>load_conversation_context\<close> with the same map. The code does not do this:
  \<open>_serialize_messages\<close> writes the map into the stored record, but
  \<open>_deserialize_messages\<close> rebuilds every message from its content alone. The message
  \<open>AIMessage(content="hi", additional_kwargs={"k": "v"})\<close> is stored with its map and
  loaded with the empty map.
\<close>

theorem C1_additional_kwargs_lost_on_load:
  "additional_kwargs kwargs_message = [(''k'', ''v'')] \<and>
   save_conversation_context ''2025-01-02T00:00:00'' ''alice@x.com'' (Some ''t1'')
       ''alice@x.com'' [kwargs_message] None Map.empty = Inr (saved_store [kwargs_message]) \<and>
   map_option (map md_additional_kwargs \<circ> conv_message_history)
       (get_conversation ''alice@x.com'' (Some ''t1'') (saved_store [kwargs_message])) =
     Some [Some [(''k'', ''v'')]] \<and>
   map additional_kwargs
       (load_conversation_context get_context_manager ''alice@x.com'' (Some ''t1'')
          (saved_store [kwargs_message])) = [[]]"
  by (simp add: kwargs_message_def save_conversation_context_def save_conversation_def
      saved_store_def serialize_messages_def serialize_message_def
      load_conversation_context_def get_conversation_def get_context_manager_def
      deserialize_messages_def deserialize_message_kwargs)

text \<open>
  C2. Claim: for a history longer than \<open>recent_window_size\<close>, the load returns exactly the
  last \<open>recent_window_size\<close> messages. With a window of 0 and a stored history of two
  records the slice \<open>all_messages[-0:]\<close> is the whole list: both records are returned,
  not the last zero. (For a window of at least 1 the property holds:
  \<open>load_conversation_context_window\<close>.)
\<close>

theorem C2_window_zero_returns_whole_history:
  "recent_window_size zero_window_manager = 0 \<and>
   map_option conv_message_history
       (get_conversation ''alice@x.com'' (Some ''t1'') (store_with [tool_record, tool_record])) =
     Some [tool_record, tool_record] \<and>
   load_conversation_context zero_window_manager ''alice@x.com'' (Some ''t1'')
       (store_with [tool_record, tool_record]) = [HumanMessage ''42'', HumanMessage ''42'']"
  by (simp add: store_with_def zero_window_manager_def load_conversation_context_def
      get_conversation_def py_slice_from_zero deserialize_messages_def deserialize_message_def
      tool_record_def)

text \<open>
  C3. When no conversation exists for the key, \<open>load_conversation_context\<close> returns the
  empty list; when the stored history has at most \<open>recent_window_size\<close> records, it
  returns one message per record, in stored order: the deserialization of each record at
  the same position.
\<close>

theorem C3_load_absent_or_short:
  "(get_conversation u t db = None \<longrightarrow> load_conversation_context cm u t db = []) \<and>
   (\<forall>conv. get_conversation u t db = Some conv \<and>
        int (length (conv_message_history conv)) \<le> recent_window_size cm \<longrightarrow>
      load_conversation_context cm u t db = deserialize_messages (conv_message_history conv) \<and>
      length (load_conversation_context cm u t db) = length (conv_message_history conv) \<and>
      (\<forall>i < length (conv_message_history conv).
         load_conversation_context cm u t db ! i =
           deserialize_message (conv_message_history conv ! i)))"
  by (simp add: load_conversation_context_def deserialize_messages_def Let_def)

theorem C3_load_absent_or_short_witness:
  "load_conversation_context get_context_manager ''alice@x.com'' (Some ''t1'') Map.empty = [] \<and>
   load_conversation_context get_context_manager ''alice@x.com'' (Some ''t1'')
     (store_with [serialize_message ''2025-01-01T00:00:00'' (HumanMessage ''a''),
                  serialize_message ''2025-01-01T00:00:00'' (AIMessage ''b'')]) =
     [HumanMessage ''a'', AIMessage ''b'']"
proof -
  let ?h = "[serialize_message ''2025-01-01T00:00:00'' (HumanMessage ''a''),
             serialize_message ''2025-01-01T00:00:00'' (AIMessage ''b'')]"
  have absent: "get_conversation ''alice@x.com'' (Some ''t1'') Map.empty = None"
    by (simp add: get_conversation_def)
  obtain conv where present: "get_conversation ''alice@x.com'' (Some ''t1'') (store_with ?h) = Some conv"
    and hist: "conv_message_history conv = ?h"
    by (simp add: get_conversation_def store_with_def)
  have short: "int (length (conv_message_history conv)) \<le> recent_window_size get_context_manager"
    by (simp add: hist get_context_manager_def)
  have "load_conversation_context get_context_manager ''alice@x.com'' (Some ''t1'') Map.empty = []"
    using C3_load_absent_or_short [of "''alice@x.com''" "Some ''t1''" Map.empty get_context_manager]
      absent by blast
  moreover have "load_conversation_context get_context_manager ''alice@x.com'' (Some ''t1'')
      (store_with ?h) = deserialize_messages (conv_message_history conv)"
    using C3_load_absent_or_short [of "''alice@x.com''" "Some ''t1''" "store_with ?h" get_context_manager]
      present short by blast
  moreover have "deserialize_messages ?h = [HumanMessage ''a'', AIMessage ''b'']"
    by (simp add: deserialize_messages_def deserialize_message_def serialize_message_def
        HumanMessage_def AIMessage_def)
  ultimately show ?thesis by (simp add: hist)
qed

text \<open>
  C4, as stated, fails: saving a list of at most \<open>recent_window_size\<close> messages and loading
  it again does not always give back the same roles, and more than timestamps can differ.
  A \<open>ToolMessage\<close> (the agent graph produces them, and the turn saves them) is loaded as
  a \<open>HumanMessage\<close>, and an \<open>AIMessage\<close> that carries tool calls is loaded without them.
\<close>

theorem C4_tool_message_counterexample:
  "int (length [tool_message, tool_call_message]) \<le> recent_window_size get_context_manager \<and>
   map msg_class [tool_message, tool_call_message] = [''ToolMessage'', ''AIMessage''] \<and>
   map tool_calls [tool_message, tool_call_message] = [[], [''call_1'']] \<and>
   save_conversation_context ''2025-01-02T00:00:00'' ''alice@x.com'' (Some ''t1'')
       ''alice@x.com'' [tool_message, tool_call_message] None Map.empty =
     Inr (saved_store [tool_message, tool_call_message]) \<and>
   map msg_class
       (load_conversation_context get_context_manager ''alice@x.com'' (Some ''t1'')
          (saved_store [tool_message, tool_call_message])) = [''HumanMessage'', ''AIMessage''] \<and>
   map tool_calls
       (load_conversation_context get_context_manager ''alice@x.com'' (Some ''t1'')
          (saved_store [tool_message, tool_call_message])) = [[], []]"
  by (simp add: tool_message_def tool_call_message_def save_conversation_context_def
      save_conversation_def saved_store_def serialize_messages_def serialize_message_def
      load_conversation_context_def get_conversation_def get_context_manager_def
      deserialize_messages_def deserialize_message_def HumanMessage_def AIMessage_def)

text \<open>
  C4, amended. For every message list of at most \<open>recent_window_size\<close> messages,
  \<open>save_conversation_context\<close> followed by \<open>load_conversation_context\<close> on the same key
  returns, position by position, the contents that were saved; the class of a message is
  the saved one when that is \<open>HumanMessage\<close>, \<open>AIMessage\<close> or \<open>SystemMessage\<close>, and
  \<open>HumanMessage\<close> for every other class. The statement is about contents and classes
  only; it says nothing of the other fields of a message.
\<close>

theorem C4_save_then_load:
  assumes "int (length messages) \<le> recent_window_size cm"
  shows "\<exists>db'. save_conversation_context now u (Some t) sender messages pa db = Inr db' \<and>
           map content (load_conversation_context cm u (Some t) db') = map content messages \<and>
           map msg_class (load_conversation_context cm u (Some t) db') =
             map (\<lambda>m. if msg_class m \<in> {''HumanMessage'', ''AIMessage'', ''SystemMessage''}
                      then msg_class m else ''HumanMessage'') messages"
proof -
  obtain db' conv where s: "save_conversation now u (Some t) sender
        (serialize_messages now messages) pa None db = Inr db'"
    and r: "db' (u, t) = Some conv"
    and h: "conv_message_history conv = serialize_messages now messages"
    using save_conversation_row [of now u t sender "serialize_messages now messages" pa None db]
    by blast
  have l: "load_conversation_context cm u (Some t) db' =
      map (\<lambda>m. deserialize_message (serialize_message now m)) messages"
    using assms r h
    by (simp add: load_conversation_context_def get_conversation_def serialize_messages_def
        deserialize_messages_def)
  show ?thesis
    using s by (simp add: save_conversation_context_def l deserialize_serialize_content
        deserialize_serialize_class comp_def)
qed

theorem C4_save_then_load_witness:
  "int (length [HumanMessage ''a'', AIMessage ''b'', tool_message])
     \<le> recent_window_size get_context_manager \<and>
   (\<exists>db'. save_conversation_context ''2025-01-02T00:00:00'' ''alice@x.com'' (Some ''t1'')
            ''alice@x.com'' [HumanMessage ''a'', AIMessage ''b'', tool_message] None Map.empty = Inr db' \<and>
      map content (load_conversation_context get_context_manager ''alice@x.com'' (Some ''t1'') db') =
        [''a'', ''b'', ''42''] \<and>
      map msg_class (load_conversation_context get_context_manager ''alice@x.com'' (Some ''t1'') db') =
        [''HumanMessage'', ''AIMessage'', ''HumanMessage''])"
proof -
  have h: "int (length [HumanMessage ''a'', AIMessage ''b'', tool_message])
     \<le> recent_window_size get_context_manager"
    by (simp add: get_context_manager_def)
  show ?thesis
    using h C4_save_then_load [OF h, of "''2025-01-02T00:00:00''" "''alice@x.com''" "''t1''"
        "''alice@x.com''" None Map.empty]
    by (simp add: HumanMessage_def AIMessage_def tool_message_def)
qed

text \<open>
  C5. When the parsed sender address and the configured, non-empty mailbox address are
  equal after \<open>str.lower()\<close> of both (the case-insensitive comparison of the code),
  \<open>process_email_trigger\<close> returns at the loop-prevention test: the store and the list of
  reply calls are what they were before the turn. \<open>str.lower()\<close> is any function that
  gives the empty string for the empty string only, as Python's does.
\<close>

theorem C5_own_mailbox_is_skipped:
  assumes "parse_trigger_payload td = Inr ed"
    and "getenv_GMAIL_USER_ID ext = Some mailbox"
    and "mailbox \<noteq> []"
    and "\<forall>s. str_lower ext s = [] \<longrightarrow> s = []"
    and "str_lower ext (sender_email ed) = str_lower ext mailbox"
  shows "process_email_trigger ext td w = (Inr Skipped, w)"
proof -
  have "str_lower ext mailbox \<noteq> []" using assms(3,4) by blast
  then have "from_assistant_itself ext (sender_email ed)"
    using assms(2,5) by (simp add: from_assistant_itself_def)
  then show ?thesis
    using assms(1) by (simp add: process_email_trigger_def process_body_def catch_all_def)
qed

theorem C5_own_mailbox_is_skipped_witness:
  "getenv_GMAIL_USER_ID (scenario_externals (Some ''Alice@X.COM'')) = Some ''Alice@X.COM'' \<and>
   sender_email scenario_email = ''alice@x.com'' \<and>
   str_lower (scenario_externals (Some ''Alice@X.COM'')) ''alice@x.com'' =
     str_lower (scenario_externals (Some ''Alice@X.COM'')) ''Alice@X.COM'' \<and>
   process_email_trigger (scenario_externals (Some ''Alice@X.COM'')) scenario_trigger
     \<lparr>store = store_with [tool_record], reply_calls = []\<rparr> =
     (Inr Skipped, \<lparr>store = store_with [tool_record], reply_calls = []\<rparr>)"
proof -
  let ?ext = "scenario_externals (Some ''Alice@X.COM'')"
  have g: "getenv_GMAIL_USER_ID ?ext = Some ''Alice@X.COM''"
    by (simp add: scenario_externals_def)
  have n: "''Alice@X.COM'' \<noteq> []" by simp
  have e: "\<forall>s. str_lower ?ext s = [] \<longrightarrow> s = []"
    by (simp add: scenario_externals_def ascii_lower_empty_iff)
  have a: "sender_email scenario_email = ''alice@x.com''"
    by (simp add: scenario_email_def)
  have l0: "str_lower ?ext ''alice@x.com'' = str_lower ?ext ''Alice@X.COM''"
    using ascii_lower_scenario by (simp add: scenario_externals_def)
  then have l: "str_lower ?ext (sender_email scenario_email) = str_lower ?ext ''Alice@X.COM''"
    by (simp only: a)
  show ?thesis
    using C5_own_mailbox_is_skipped [OF scenario_parse g n e l] g a l0 by blast
qed

text \<open>
  C6. When the turn reaches the reply and \<open>send_reply\<close> raises, the exception is caught:
  the function returns normally, and the store it leaves is the store that
  \<open>save_conversation_context\<close> produced earlier in the turn, with the row of the
  conversation holding the serialized messages of the turn.
\<close>

theorem C6_reply_failure_keeps_persisted_row:
  assumes "parse_trigger_payload td = Inr ed"
    and "\<not> from_assistant_itself ext (sender_email ed)"
    and "run_agent ext ed w = Inr acc"
    and "persist ext ed acc w = Inr w1"
    and "thread_id ed = Some t" and "t \<noteq> []" and "agent_response acc \<noteq> []"
    and "send_reply ext (reply_request_of ed t acc) = Inl reply_error"
  shows "process_email_trigger ext td w =
           (Inr (ReplyFailed reply_error),
            w1\<lparr>reply_calls := reply_calls w1 @ [reply_request_of ed t acc]\<rparr>) \<and>
         store (snd (process_email_trigger ext td w)) = store w1 \<and>
         (\<exists>conv. store (snd (process_email_trigger ext td w)) (sender_email ed, t) = Some conv \<and>
            conv_message_history conv = serialize_messages (utcnow ext) (current_messages acc))"
proof -
  have d: "dispatch_reply ext ed acc w1 =
      (ReplyFailed reply_error, w1\<lparr>reply_calls := reply_calls w1 @ [reply_request_of ed t acc]\<rparr>)"
    using assms(5-8) by (simp add: dispatch_reply_def Let_def)
  have p: "process_email_trigger ext td w =
           (Inr (ReplyFailed reply_error),
            w1\<lparr>reply_calls := reply_calls w1 @ [reply_request_of ed t acc]\<rparr>)"
    using assms(1-4) d
    by (simp add: process_email_trigger_def process_body_def run_turn_def catch_all_def)
  obtain db' where s: "save_conversation_context (utcnow ext) (sender_email ed) (Some t)
             (sender_email ed) (current_messages acc) None (store w) = Inr db'"
      and w1: "w1 = w\<lparr>store := db'\<rparr>"
    using assms(4,5) by (auto simp add: persist_def split: sum.splits)
  have "\<exists>conv. db' (sender_email ed, t) = Some conv \<and>
            conv_message_history conv = serialize_messages (utcnow ext) (current_messages acc)"
    using s by (auto simp add: save_conversation_context_def save_conversation_def Let_def
        split: option.splits)
  then show ?thesis using p w1 by simp
qed

theorem C6_reply_failure_keeps_persisted_row_witness:
  "fst (process_email_trigger (scenario_externals None) scenario_trigger empty_world) =
     Inr (ReplyFailed (ExternalError ''reply API down'')) \<and>
   (\<exists>conv. store (snd (process_email_trigger (scenario_externals None) scenario_trigger empty_world))
        (''alice@x.com'', ''t1'') = Some conv \<and>
      conv_message_history conv =
        serialize_messages ''2025-01-02T00:00:00''
          [new_message scenario_email, AIMessage ''Summary: ...''])"
proof -
  let ?ext = "scenario_externals None"
  obtain w1 where p: "persist ?ext scenario_email scenario_acc empty_world = Inr w1"
    using scenario_persist by blast
  have ns: "\<not> from_assistant_itself ?ext (sender_email scenario_email)"
    by (simp add: from_assistant_itself_def scenario_externals_def ascii_lower_def)
  have t: "thread_id scenario_email = Some ''t1''" "''t1'' \<noteq> []"
    "agent_response scenario_acc \<noteq> []"
    by (simp_all add: scenario_email_def scenario_acc_def)
  have r: "send_reply ?ext (reply_request_of scenario_email ''t1'' scenario_acc) =
      Inl (ExternalError ''reply API down'')"
    by (simp add: scenario_externals_def)
  have e: "sender_email scenario_email = ''alice@x.com''"
    "utcnow ?ext = ''2025-01-02T00:00:00''"
    "current_messages scenario_acc = [new_message scenario_email, AIMessage ''Summary: ...'']"
    by (simp_all add: scenario_email_def scenario_externals_def scenario_acc_def)
  note turn = C6_reply_failure_keeps_persisted_row [OF scenario_parse ns scenario_run_agent p t r]
  have "fst (process_email_trigger ?ext scenario_trigger empty_world) =
     Inr (ReplyFailed (ExternalError ''reply API down''))"
    using turn by simp
  moreover have "\<exists>conv. store (snd (process_email_trigger ?ext scenario_trigger empty_world))
        (sender_email scenario_email, ''t1'') = Some conv \<and>
      conv_message_history conv =
        serialize_messages (utcnow ?ext) (current_messages scenario_acc)"
    using turn by blast
  ultimately show ?thesis unfolding e by blast
qed

text \<open>
  C7. The sender address of \<open>parse_trigger_payload\<close>: for a decorated sender
  \<open>name <addr> rest\<close> (no \<open><\<close> in the name, no bracket in the address) it is the text
  between the brackets; a non-empty sender that does not contain both brackets is returned
  unchanged; the empty sender gives \<open>unknown@email.com\<close>. The witness runs the three
  strings of the claim: \<open>Alice <alice@x.com>\<close>, \<open>alice@x.com\<close> and the empty string.
\<close>

theorem C7_sender_address:
  "(td_payload td = Some pl \<and> p_sender pl = Some (name @ ''<'' @ addr @ ''>'' @ rest) \<and>
      CHR ''<'' \<notin> set name \<and> CHR ''<'' \<notin> set addr \<and> CHR ''>'' \<notin> set addr \<longrightarrow>
      (\<exists>ed. parse_trigger_payload td = Inr ed \<and> sender_email ed = addr)) \<and>
   (td_payload td = Some pl \<and> p_sender pl = Some s \<and> s \<noteq> [] \<and>
      \<not> (CHR ''<'' \<in> set s \<and> CHR ''>'' \<in> set s) \<longrightarrow>
      (\<exists>ed. parse_trigger_payload td = Inr ed \<and> sender_email ed = s)) \<and>
   (td_payload td = Some pl \<and> p_sender pl = Some [] \<longrightarrow>
      (\<exists>ed. parse_trigger_payload td = Inr ed \<and> sender_email ed = ''unknown@email.com''))"
  by (auto simp add: parse_trigger_payload_def Let_def parse_sender_bare
      parse_sender_decorated [of name addr rest, simplified])

theorem C7_sender_address_witness:
  "(\<exists>ed. parse_trigger_payload (sender_trigger ''Alice <alice@x.com>'') = Inr ed \<and>
      sender_email ed = ''alice@x.com'') \<and>
   (\<exists>ed. parse_trigger_payload (sender_trigger ''alice@x.com'') = Inr ed \<and>
      sender_email ed = ''alice@x.com'') \<and>
   (\<exists>ed. parse_trigger_payload (sender_trigger []) = Inr ed \<and>
      sender_email ed = ''unknown@email.com'')"
proof -
  let ?pl = "\<lambda>s. \<lparr>p_sender = Some s, p_subject = None, p_message_text = None,
        p_thread_id = None, p_message_id = None\<rparr>"
  have p: "td_payload (sender_trigger s) = Some (?pl s)" "p_sender (?pl s) = Some s" for s
    by (simp_all add: sender_trigger_def)
  have d: "''Alice <alice@x.com>'' = ''Alice '' @ ''<'' @ ''alice@x.com'' @ ''>'' @ []" by simp
  have "\<exists>ed. parse_trigger_payload (sender_trigger ''Alice <alice@x.com>'') = Inr ed \<and>
      sender_email ed = ''alice@x.com''"
    using C7_sender_address [of "sender_trigger ''Alice <alice@x.com>''" "?pl ''Alice <alice@x.com>''"
        "''Alice ''" "''alice@x.com''" "[]"] p [of "''Alice <alice@x.com>''"]
    by simp
  moreover have "\<exists>ed. parse_trigger_payload (sender_trigger ''alice@x.com'') = Inr ed \<and>
      sender_email ed = ''alice@x.com''"
    using C7_sender_address [of "sender_trigger ''alice@x.com''" "?pl ''alice@x.com''"
        _ _ _ "''alice@x.com''"] p [of "''alice@x.com''"]
    by simp
  moreover have "\<exists>ed. parse_trigger_payload (sender_trigger []) = Inr ed \<and>
      sender_email ed = ''unknown@email.com''"
    using C7_sender_address [of "sender_trigger []" "?pl []"] p [of "[]"]
    by simp
  ultimately show ?thesis by blast
qed

text \<open>
  C8. A stored record whose type tag is none of \<open>HumanMessage\<close>, \<open>AIMessage\<close>,
  \<open>SystemMessage\<close> is deserialized to a \<open>HumanMessage\<close> with the record's content (the
  empty string when the record has no content). Deserialization has no failing branch: it
  returns one message per record, and the class of every message it returns is one of
  the three.
\<close>

theorem C8_unrecognized_type_falls_back:
  "(\<forall>t. md_type d = Some t \<and> t \<notin> {''HumanMessage'', ''AIMessage'', ''SystemMessage''} \<longrightarrow>
      deserialize_message d = HumanMessage (case md_content d of None \<Rightarrow> [] | Some s \<Rightarrow> s)) \<and>
   length (deserialize_messages ds) = length ds \<and>
   (\<forall>i < length ds. deserialize_messages ds ! i = deserialize_message (ds ! i)) \<and>
   (\<forall>m \<in> set (deserialize_messages ds).
      msg_class m \<in> {''HumanMessage'', ''AIMessage'', ''SystemMessage''})"
  by (auto simp add: deserialize_messages_def deserialize_message_def HumanMessage_def
      AIMessage_def SystemMessage_def Let_def)

theorem C8_unrecognized_type_falls_back_witness:
  "md_type tool_record = Some ''ToolMessage'' \<and>
   ''ToolMessage'' \<notin> {''HumanMessage'', ''AIMessage'', ''SystemMessage''} \<and>
   deserialize_message tool_record = HumanMessage ''42'' \<and>
   deserialize_messages [tool_record] ! 0 = HumanMessage ''42'' \<and>
   length (deserialize_messages [tool_record]) = 1 \<and>
   msg_class (deserialize_messages [tool_record] ! 0) \<in>
     {''HumanMessage'', ''AIMessage'', ''SystemMessage''}"
proof -
  have t: "md_type tool_record = Some ''ToolMessage''" and c: "md_content tool_record = Some ''42''"
    by (simp_all add: tool_record_def)
  have n: "''ToolMessage'' \<notin> {''HumanMessage'', ''AIMessage'', ''SystemMessage''}" by simp
  have one: "deserialize_message tool_record = HumanMessage ''42''"
    using C8_unrecognized_type_falls_back [of tool_record "[tool_record]"] t n c by simp
  have nth: "deserialize_messages [tool_record] ! 0 = deserialize_message tool_record"
    and len: "length (deserialize_messages [tool_record]) = 1"
    using C8_unrecognized_type_falls_back [of tool_record "[tool_record]"] by simp_all
  have "deserialize_messages [tool_record] ! 0 \<in> set (deserialize_messages [tool_record])"
    using len by (intro nth_mem) simp
  then have cls: "msg_class (deserialize_messages [tool_record] ! 0) \<in>
     {''HumanMessage'', ''AIMessage'', ''SystemMessage''}"
    using C8_unrecognized_type_falls_back [of tool_record "[tool_record]"] by blast
  show ?thesis
    using t n one nth len cls by simp
qed

text \<open>
  C9. For an existing conversation, \<open>clear_pending_action\<close> rewrites the row: the pending
  action becomes absent, the sender and the message history stay, the update time is the
  current time, and the context becomes the empty map whatever it held. No other row
  changes.
\<close>

theorem C9_clear_pending_action_resets_context:
  assumes "get_conversation user_id (Some t) db = Some conv"
  shows "\<exists>db'. clear_pending_action now user_id (Some t) db = Inr db' \<and>
           db' (user_id, t) =
             Some (conv\<lparr>conv_pending_action := None, conv_context := [], conv_updated_at := now\<rparr>) \<and>
           (\<forall>k. k \<noteq> (user_id, t) \<longrightarrow> db' k = db k)"
  using assms
  by (simp add: clear_pending_action_def save_conversation_def get_conversation_def Let_def)

theorem C9_clear_pending_action_resets_context_witness:
  "get_conversation ''alice@x.com'' (Some ''t1'') (store_with [tool_record]) \<noteq> None \<and>
   (\<exists>db'. clear_pending_action ''2025-01-02T00:00:00'' ''alice@x.com'' (Some ''t1'')
            (store_with [tool_record]) = Inr db' \<and>
      db' (''alice@x.com'', ''t1'') =
        Some \<lparr>conv_sender_email = ''alice@x.com'',
              conv_message_history = [tool_record],
              conv_pending_action = None,
              conv_context = [],
              conv_created_at = ''2025-01-01T00:00:00'',
              conv_updated_at = ''2025-01-02T00:00:00''\<rparr>)"
proof -
  have g: "get_conversation ''alice@x.com'' (Some ''t1'') (store_with [tool_record]) =
      Some \<lparr>conv_sender_email = ''alice@x.com'',
        conv_message_history = [tool_record],
        conv_pending_action = Some ''awaiting_connection'',
        conv_context = [(''step'', ''2'')],
        conv_created_at = ''2025-01-01T00:00:00'',
        conv_updated_at = ''2025-01-01T00:00:00''\<rparr>"
    by (simp add: get_conversation_def store_with_def)
  show ?thesis
    using g C9_clear_pending_action_resets_context [OF g, of "''2025-01-02T00:00:00''"]
    by auto
qed

text \<open>
  C10. When \<open>GMAIL_USER_ID\<close> is unset or empty, the loop-prevention test is false for
  every sender (the lower-cased empty string is empty), the outcome is never the skip, and
  the turn is processed in full. When the session manager or the stream of the graph
  raises, the turn is abandoned with the world unchanged, and so it is when the thread
  id is missing and the save is refused. Otherwise the row of \<open>(sender, thread)\<close> holds
  the serialization of the loaded history, the new message and every message the graph
  produced, in that order, with the sender and no pending action; no other row changes;
  and when the thread id and the reply text are not empty, exactly one reply call is made,
  to the sender on that thread with the reply text as body (none otherwise).
\<close>

theorem C10_unset_mailbox_never_skips:
  assumes env: "getenv_GMAIL_USER_ID ext = None \<or> getenv_GMAIL_USER_ID ext = Some []"
    and low: "str_lower ext [] = []"
    and parse: "parse_trigger_payload td = Inr ed"
    and hist: "history = load_conversation_context get_context_manager (sender_email ed)
                  (thread_id ed) (store w)"
    and res: "result = process_email_trigger ext td w"
  shows "\<not> from_assistant_itself ext (sender_email ed) \<and>
    fst result \<noteq> Inr Skipped \<and>
    (\<forall>e. create_session_and_graph ext (sender_email ed) = Inl e \<longrightarrow>
       result = (Inr (Abandoned e), w)) \<and>
    (\<forall>g e. create_session_and_graph ext (sender_email ed) = Inr g \<and>
       g (history @ [new_message ed]) = Inl e \<longrightarrow>
       result = (Inr (Abandoned e), w)) \<and>
    (\<forall>g events. create_session_and_graph ext (sender_email ed) = Inr g \<and>
       g (history @ [new_message ed]) = Inr events \<and> thread_id ed = None \<longrightarrow>
       result = (Inr (Abandoned IntegrityError), w)) \<and>
    (\<forall>g events t. create_session_and_graph ext (sender_email ed) = Inr g \<and>
       g (history @ [new_message ed]) = Inr events \<and> thread_id ed = Some t \<longrightarrow>
       (\<exists>conv. store (snd result) (sender_email ed, t) = Some conv \<and>
          conv_sender_email conv = sender_email ed \<and>
          conv_pending_action conv = None \<and>
          conv_message_history conv =
            serialize_messages (utcnow ext)
              (history @ [new_message ed] @
               concat (map (\<lambda>ev. concat (map (\<lambda>v. case v of None \<Rightarrow> [] | Some msgs \<Rightarrow> msgs) ev))
                 events))) \<and>
       (\<forall>k. k \<noteq> (sender_email ed, t) \<longrightarrow> store (snd result) k = store w k) \<and>
       (let response = agent_response (consume_stream events
              \<lparr>result_messages = [], current_messages = history @ [new_message ed],
               agent_response = []\<rparr>);
            request = \<lparr>rr_connected_account_id = connected_account_id ed, rr_thread_id = t,
               rr_recipient_email = sender_email ed, rr_message_body = response\<rparr>
        in if t \<noteq> [] \<and> response \<noteq> []
           then reply_calls (snd result) = reply_calls w @ [request] \<and>
                fst result = Inr (case send_reply ext request of
                                    Inl reply_error \<Rightarrow> ReplyFailed reply_error
                                  | Inr u \<Rightarrow> Replied)
           else reply_calls (snd result) = reply_calls w \<and> fst result = Inr NoReply))"
proof -
  have ns: "\<not> from_assistant_itself ext (sender_email ed)"
    using env low by (auto simp add: from_assistant_itself_def)
  have eq: "result = catch_all (run_turn ext ed w)"
    using ns parse res by (simp add: process_email_trigger_def process_body_def)
  have nsk: "fst result \<noteq> Inr Skipped"
    unfolding eq by (rule catch_all_not_skipped [OF run_turn_not_skipped])
  have a: "create_session_and_graph ext (sender_email ed) = Inl e \<Longrightarrow>
       result = (Inr (Abandoned e), w)" for e
    unfolding eq by (simp add: run_turn_def run_agent_def catch_all_def)
  have b: "create_session_and_graph ext (sender_email ed) = Inr g \<Longrightarrow>
       g (history @ [new_message ed]) = Inl e \<Longrightarrow> result = (Inr (Abandoned e), w)" for g e
    unfolding eq hist by (simp add: run_turn_def run_agent_def catch_all_def)
  have c: "create_session_and_graph ext (sender_email ed) = Inr g \<Longrightarrow>
       g (history @ [new_message ed]) = Inr events \<Longrightarrow> thread_id ed = None \<Longrightarrow>
       result = (Inr (Abandoned IntegrityError), w)" for g events
    unfolding eq hist
    by (simp add: run_turn_def run_agent_def persist_def save_conversation_context_def
        save_conversation_def catch_all_def)
  have d: "(\<exists>conv. store (snd result) (sender_email ed, t) = Some conv \<and>
          conv_sender_email conv = sender_email ed \<and>
          conv_pending_action conv = None \<and>
          conv_message_history conv =
            serialize_messages (utcnow ext)
              (history @ [new_message ed] @
               concat (map (\<lambda>ev. concat (map (\<lambda>v. case v of None \<Rightarrow> [] | Some msgs \<Rightarrow> msgs) ev))
                 events))) \<and>
       (\<forall>k. k \<noteq> (sender_email ed, t) \<longrightarrow> store (snd result) k = store w k) \<and>
       (let response = agent_response (consume_stream events
              \<lparr>result_messages = [], current_messages = history @ [new_message ed],
               agent_response = []\<rparr>);
            request = \<lparr>rr_connected_account_id = connected_account_id ed, rr_thread_id = t,
               rr_recipient_email = sender_email ed, rr_message_body = response\<rparr>
        in if t \<noteq> [] \<and> response \<noteq> []
           then reply_calls (snd result) = reply_calls w @ [request] \<and>
                fst result = Inr (case send_reply ext request of
                                    Inl reply_error \<Rightarrow> ReplyFailed reply_error
                                  | Inr u \<Rightarrow> Replied)
           else reply_calls (snd result) = reply_calls w \<and> fst result = Inr NoReply)"
    if g: "create_session_and_graph ext (sender_email ed) = Inr g"
      and ev: "g (history @ [new_message ed]) = Inr events"
      and t: "thread_id ed = Some t" for g events t
  proof -
    let ?acc = "consume_stream events
              \<lparr>result_messages = [], current_messages = history @ [new_message ed],
               agent_response = []\<rparr>"
    have ra: "run_agent ext ed w = Inr ?acc"
      using g ev by (simp add: run_agent_def hist)
    obtain db' conv where s: "save_conversation (utcnow ext) (sender_email ed) (Some t)
          (sender_email ed) (serialize_messages (utcnow ext) (current_messages ?acc)) None None
          (store w) = Inr db'"
      and row: "db' (sender_email ed, t) = Some conv"
        "conv_message_history conv = serialize_messages (utcnow ext) (current_messages ?acc)"
        "conv_sender_email conv = sender_email ed" "conv_pending_action conv = None"
      and frame: "\<forall>k. k \<noteq> (sender_email ed, t) \<longrightarrow> db' k = store w k"
      using save_conversation_row [of "utcnow ext" "sender_email ed" t "sender_email ed"
          "serialize_messages (utcnow ext) (current_messages ?acc)" None None "store w"]
      by blast
    have pe: "persist ext ed ?acc w = Inr (w\<lparr>store := db'\<rparr>)"
      using s t by (simp add: persist_def save_conversation_context_def)
    have rt: "result = (Inr (fst (dispatch_reply ext ed ?acc (w\<lparr>store := db'\<rparr>))),
                       snd (dispatch_reply ext ed ?acc (w\<lparr>store := db'\<rparr>)))"
      unfolding eq by (simp add: run_turn_def ra pe catch_all_def split: prod.splits)
    have st: "store (snd result) = db'"
      unfolding rt using t by (simp add: dispatch_reply_def Let_def split: sum.splits)
    have cur: "current_messages ?acc = history @ [new_message ed] @
               concat (map (\<lambda>ev. concat (map (\<lambda>v. case v of None \<Rightarrow> [] | Some msgs \<Rightarrow> msgs) ev))
                 events)"
      by (simp add: consume_stream_current)
    have rep: "let response = agent_response ?acc;
            request = \<lparr>rr_connected_account_id = connected_account_id ed, rr_thread_id = t,
               rr_recipient_email = sender_email ed, rr_message_body = response\<rparr>
        in if t \<noteq> [] \<and> response \<noteq> []
           then reply_calls (snd result) = reply_calls w @ [request] \<and>
                fst result = Inr (case send_reply ext request of
                                    Inl reply_error \<Rightarrow> ReplyFailed reply_error
                                  | Inr u \<Rightarrow> Replied)
           else reply_calls (snd result) = reply_calls w \<and> fst result = Inr NoReply"
      unfolding rt using t
      by (simp add: dispatch_reply_def reply_request_of_def Let_def split: sum.splits)
    show ?thesis using st row frame cur rep by simp
  qed
  show ?thesis using ns nsk a b c d by blast
qed

theorem C10_unset_mailbox_never_skips_witness:
  "fst (process_email_trigger (scenario_externals None) scenario_trigger empty_world) \<noteq>
     Inr Skipped \<and>
   fst (process_email_trigger (scenario_externals (Some [])) scenario_trigger empty_world) \<noteq>
     Inr Skipped \<and>
   (\<exists>conv. store (snd (process_email_trigger (scenario_externals None) scenario_trigger
        empty_world)) (''alice@x.com'', ''t1'') = Some conv \<and>
      conv_message_history conv =
        serialize_messages ''2025-01-02T00:00:00''
          [new_message scenario_email, AIMessage ''Summary: ...'']) \<and>
   reply_calls (snd (process_email_trigger (scenario_externals None) scenario_trigger
        empty_world)) =
     [\<lparr>rr_connected_account_id = Some ''ca1'', rr_thread_id = ''t1'',
       rr_recipient_email = ''alice@x.com'', rr_message_body = ''Summary: ...''\<rparr>]"
proof -
  let ?ext = "scenario_externals None"
  let ?res = "process_email_trigger ?ext scenario_trigger empty_world"
  have env: "getenv_GMAIL_USER_ID ?ext = None \<or> getenv_GMAIL_USER_ID ?ext = Some []"
    and low: "str_lower ?ext [] = []"
    by (simp_all add: scenario_externals_def ascii_lower_def)
  have env': "getenv_GMAIL_USER_ID (scenario_externals (Some [])) = None \<or>
      getenv_GMAIL_USER_ID (scenario_externals (Some [])) = Some []"
    and low': "str_lower (scenario_externals (Some [])) [] = []"
    by (simp_all add: scenario_externals_def ascii_lower_def)
  note turn = C10_unset_mailbox_never_skips [OF env low scenario_parse refl refl,
      where w = empty_world]
  note turn' = C10_unset_mailbox_never_skips [OF env' low' scenario_parse refl refl,
      where w = empty_world]
  have h: "load_conversation_context get_context_manager (sender_email scenario_email)
      (thread_id scenario_email) (store empty_world) = []"
    by (simp add: load_conversation_context_def get_conversation_def empty_world_def
        scenario_email_def)
  have g: "create_session_and_graph ?ext (sender_email scenario_email) = Inr scenario_graph"
    by (simp add: scenario_externals_def)
  have ev: "scenario_graph ([] @ [new_message scenario_email]) =
      Inr [[Some [AIMessage ''Summary: ...'']]]"
    by (simp add: scenario_graph_def)
  have t: "thread_id scenario_email = Some ''t1''"
    by (simp add: scenario_email_def)
  have acc: "consume_stream [[Some [AIMessage ''Summary: ...'']]]
      \<lparr>result_messages = [], current_messages = [] @ [new_message scenario_email],
       agent_response = []\<rparr> = scenario_acc"
    by (simp add: consume_stream_def consume_value_def consume_message_def scenario_acc_def
        AIMessage_def Let_def)
  have e: "sender_email scenario_email = ''alice@x.com''"
    "connected_account_id scenario_email = Some ''ca1''"
    "utcnow ?ext = ''2025-01-02T00:00:00''"
    "agent_response scenario_acc = ''Summary: ...''"
    by (simp_all add: scenario_email_def scenario_externals_def scenario_acc_def)
  have rc: "reply_calls empty_world = []"
    by (simp add: empty_world_def)
  have full: "(\<exists>conv. store (snd ?res) (sender_email scenario_email, ''t1'') = Some conv \<and>
          conv_sender_email conv = sender_email scenario_email \<and>
          conv_pending_action conv = None \<and>
          conv_message_history conv =
            serialize_messages (utcnow ?ext)
              ([] @ [new_message scenario_email] @
               concat (map (\<lambda>ev. concat (map (\<lambda>v. case v of None \<Rightarrow> [] | Some msgs \<Rightarrow> msgs) ev))
                 [[Some [AIMessage ''Summary: ...'']]]))) \<and>
       (\<forall>k. k \<noteq> (sender_email scenario_email, ''t1'') \<longrightarrow> store (snd ?res) k = store empty_world k) \<and>
       (let response = agent_response (consume_stream [[Some [AIMessage ''Summary: ...'']]]
              \<lparr>result_messages = [], current_messages = [] @ [new_message scenario_email],
               agent_response = []\<rparr>);
            request = \<lparr>rr_connected_account_id = connected_account_id scenario_email,
               rr_thread_id = ''t1'',
               rr_recipient_email = sender_email scenario_email, rr_message_body = response\<rparr>
        in if ''t1'' \<noteq> [] \<and> response \<noteq> []
           then reply_calls (snd ?res) = reply_calls empty_world @ [request] \<and>
                fst ?res = Inr (case send_reply ?ext request of
                                    Inl reply_error \<Rightarrow> ReplyFailed reply_error
                                  | Inr u \<Rightarrow> Replied)
           else reply_calls (snd ?res) = reply_calls empty_world \<and> fst ?res = Inr NoReply)"
    using turn g ev t unfolding h by blast
  have row: "\<exists>conv. store (snd ?res) (''alice@x.com'', ''t1'') = Some conv \<and>
      conv_message_history conv =
        serialize_messages ''2025-01-02T00:00:00''
          [new_message scenario_email, AIMessage ''Summary: ...'']"
    using full unfolding e by auto
  have calls: "reply_calls (snd ?res) =
     [\<lparr>rr_connected_account_id = Some ''ca1'', rr_thread_id = ''t1'',
       rr_recipient_email = ''alice@x.com'', rr_message_body = ''Summary: ...''\<rparr>]"
    using full unfolding acc e rc by (simp add: Let_def)
  show ?thesis using turn turn' row calls by blast
qed

end
